theory Spec2Isabelle
  imports Main "HOL-Library.Multiset"
begin

section \<open>Queue engine (\<open>backend/utils/queue.js\<close>, the file \<open>part_003\<close>)\<close>

subsection \<open>Data\<close>

text \<open>
  The object that travels through the Redis lists. \<open>enqueue\<close> receives it either from the
  \<open>chatMessage\<close> handler (no \<open>attemptCount\<close>, no \<open>queuedAt\<close> yet) or from the retry branch
  of \<open>startProcessing\<close> (both present), so the two bookkeeping fields are optional, as are
  the two fields only a dead-letter entry carries. \<open>content\<close> is optional because the
  handler stores \<open>content?.trim()\<close>, which is \<open>undefined\<close> for a text message without content.
  \<open>JSON.stringify\<close>/\<open>JSON.parse\<close> are the identity on this data, and \<open>LREM\<close> compares
  serialised entries, which is equality of these records.
\<close>

record message =
  room :: string
  sender :: string
  mtype :: string
  content :: "string option"
  fileData :: "string option"
  tempId :: string
  metadata :: "string \<times> string \<times> string"
  attemptCount :: "nat option"
  queuedAt :: "nat option"
  error :: "string option"
  failedAt :: "nat option"

text \<open>
  A document of the \<open>Message\<close> collection, as \<open>Message.create\<close> returns it. The content
  is the text of a user or AI message, or one of the three notices the server writes
  for a user of the given name (entered, left, lost the connection); the notices are
  fixed Korean sentences after the name in the source.
\<close>

datatype body = Text string | Entered string | Exited string | Connection_lost string

record doc =
  d_id :: nat
  d_room :: string
  d_sender :: "string option"
  d_type :: string
  d_content :: body
  d_timestamp :: nat

text \<open>The three Redis lists the queue owns; the head of a list is Redis's left end.\<close>

datatype lane = MainQueue | ProcessingQueue | DeadLetterQueue

record redis =
  chat_messages :: "message list"
  processing_messages :: "message list"
  dead_letter_messages :: "message list"
  reachable :: bool

definition maxRetries :: nat where
  "maxRetries = 3"

fun lane_of :: "lane \<Rightarrow> redis \<Rightarrow> message list" where
  "lane_of MainQueue r = chat_messages r"
| "lane_of ProcessingQueue r = processing_messages r"
| "lane_of DeadLetterQueue r = dead_letter_messages r"

fun lane_put :: "lane \<Rightarrow> message list \<Rightarrow> redis \<Rightarrow> redis" where
  "lane_put MainQueue xs r = r\<lparr>chat_messages := xs\<rparr>"
| "lane_put ProcessingQueue xs r = r\<lparr>processing_messages := xs\<rparr>"
| "lane_put DeadLetterQueue xs r = r\<lparr>dead_letter_messages := xs\<rparr>"

subsection \<open>Redis commands\<close>

text \<open>
  Every command rejects (\<open>None\<close>) when the store cannot be reached and otherwise returns
  the updated store. \<open>RPUSH\<close> appends at the tail, \<open>RPOPLPUSH\<close> takes the tail of the
  source and puts it at the head of the destination, \<open>LREM key 1 v\<close> deletes the first
  entry equal to \<open>v\<close> counting from the head.
\<close>

definition rpush :: "lane \<Rightarrow> message list \<Rightarrow> redis \<Rightarrow> redis option" where
  "rpush k vs r = (if reachable r then Some (lane_put k (lane_of k r @ vs) r) else None)"

definition rpoplpush :: "lane \<Rightarrow> lane \<Rightarrow> redis \<Rightarrow> (message option \<times> redis) option" where
  "rpoplpush src dst r =
     (if \<not> reachable r then None
      else if lane_of src r = [] then Some (None, r)
      else let v = last (lane_of src r);
               r1 = lane_put src (butlast (lane_of src r)) r
           in Some (Some v, lane_put dst (v # lane_of dst r1) r1))"

definition lrem :: "lane \<Rightarrow> message \<Rightarrow> redis \<Rightarrow> redis option" where
  "lrem k v r = (if reachable r then Some (lane_put k (remove1 v (lane_of k r)) r) else None)"

definition lrange_all :: "lane \<Rightarrow> redis \<Rightarrow> message list option" where
  "lrange_all k r = (if reachable r then Some (lane_of k r) else None)"

definition multi_del_rpush :: "lane \<Rightarrow> lane \<Rightarrow> message list \<Rightarrow> redis \<Rightarrow> redis option" where
  "multi_del_rpush d k vs r =
     (if reachable r then
        (let r1 = lane_put d [] r in Some (lane_put k (lane_of k r1 @ vs) r1))
      else None)"

subsection \<open>MessageQueue\<close>

text \<open>
  \<open>enqueue\<close> builds \<open>{...messageData, attemptCount: 0, queuedAt: Date.now()}\<close>: the two
  fields written after the spread replace whatever \<open>messageData\<close> carried. A rejected
  \<open>RPUSH\<close> is caught and turned into the result \<open>false\<close>.
\<close>

definition enqueue :: "nat \<Rightarrow> message \<Rightarrow> redis \<Rightarrow> bool \<times> redis" where
  "enqueue now messageData r =
     (let msg = messageData\<lparr>attemptCount := Some 0, queuedAt := Some now\<rparr>
      in case rpush MainQueue [msg] r of
           Some r' \<Rightarrow> (True, r')
         | None \<Rightarrow> (False, r))"

definition moveToDeadLetter :: "nat \<Rightarrow> message \<Rightarrow> string \<Rightarrow> redis \<Rightarrow> redis" where
  "moveToDeadLetter now msg err r =
     (let deadMessage = msg\<lparr>error := Some err, failedAt := Some now\<rparr>
      in case rpush DeadLetterQueue [deadMessage] r of
           Some r' \<Rightarrow> r'
         | None \<Rightarrow> r)"

text \<open>Events the queue emits to its listeners.\<close>

datatype queue_event =
    QMessageProcessed doc message
  | QMessageError string message

text \<open>
  \<open>processMessage\<close>: the persistence adapter (\<open>Message.create\<close> followed by the two
  \<open>populate\<close> calls) is the parameter \<open>create\<close>; \<open>Inl\<close> is the message of the error it
  throws. On success one \<open>messageProcessed\<close> is emitted, on failure one \<open>messageError\<close>,
  and the error is thrown again.
\<close>

definition processMessage ::
  "(message \<Rightarrow> string + doc) \<Rightarrow> message \<Rightarrow> (string + unit) \<times> queue_event list" where
  "processMessage create msg =
     (case create msg of
        Inr newMessage \<Rightarrow> (Inr (), [QMessageProcessed newMessage msg])
      | Inl err \<Rightarrow> (Inl err, [QMessageError err msg]))"

text \<open>
  The \<open>catch\<close> block of the inner \<open>try\<close>: \<open>raw\<close> is the entry as it was popped
  (\<open>result[0][1]\<close>), \<open>msg\<close> the parsed object. \<open>None\<close> means the final \<open>LREM\<close> rejected
  and control passes to the outer \<open>catch\<close>.
\<close>

definition on_failure :: "nat \<Rightarrow> message \<Rightarrow> message \<Rightarrow> string \<Rightarrow> redis \<Rightarrow> redis option" where
  "on_failure now raw msg err r =
     (let n = (case attemptCount msg of None \<Rightarrow> 0 | Some k \<Rightarrow> k) + 1;
          msg' = msg\<lparr>attemptCount := Some n\<rparr>;
          r1 = (if n \<ge> maxRetries then moveToDeadLetter now msg' err r
                else snd (enqueue now msg' r))
      in lrem ProcessingQueue raw r1)"

text \<open>
  One turn of the \<open>while (true)\<close> loop of \<open>startProcessing\<close>. \<open>now\<close> is the value
  \<open>Date.now()\<close> has during the turn. The result is the store and the events emitted.
  When a command rejects, the effects already made stay and the outer \<open>catch\<close> only
  logs and sleeps.
\<close>

definition processing_turn ::
  "(message \<Rightarrow> string + doc) \<Rightarrow> nat \<Rightarrow> redis \<Rightarrow> redis \<times> queue_event list" where
  "processing_turn create now r =
     (case rpoplpush MainQueue ProcessingQueue r of
        None \<Rightarrow> (r, [])
      | Some (None, r1) \<Rightarrow> (r1, [])
      | Some (Some raw, r1) \<Rightarrow>
          (case processMessage create raw of
             (Inr _, evs) \<Rightarrow>
               (case lrem ProcessingQueue raw r1 of
                  Some r2 \<Rightarrow> (r2, evs)
                | None \<Rightarrow>
                    (case on_failure now raw raw ''redis'' r1 of
                       Some r2 \<Rightarrow> (r2, evs)
                     | None \<Rightarrow> (r1, evs)))
           | (Inl err, evs) \<Rightarrow>
               (case on_failure now raw raw err r1 of
                  Some r2 \<Rightarrow> (r2, evs)
                | None \<Rightarrow> (r1, evs))))"

text \<open>
  The loop never returns; \<open>startProcessing\<close> runs as many turns as there are clock
  readings in the list, one reading per turn, and collects the events.
\<close>

fun startProcessing ::
  "(message \<Rightarrow> string + doc) \<Rightarrow> nat list \<Rightarrow> redis \<Rightarrow> redis \<times> queue_event list" where
  "startProcessing create [] r = (r, [])"
| "startProcessing create (now # ts) r =
     (let (r1, evs) = processing_turn create now r;
          (r2, evs') = startProcessing create ts r1
      in (r2, evs @ evs'))"

text \<open>\<open>cleanup\<close>: every rejection is caught and logged.\<close>

definition cleanup :: "redis \<Rightarrow> redis" where
  "cleanup r =
     (case lrange_all ProcessingQueue r of
        None \<Rightarrow> r
      | Some processingMessages \<Rightarrow>
          if length processingMessages > 0 then
            (case multi_del_rpush ProcessingQueue MainQueue processingMessages r of
               Some r' \<Rightarrow> r'
             | None \<Rightarrow> r)
          else r)"


text \<open>
  The bottom of the socket module: when the module is loaded the processing loop is
  started at once, and \<open>cleanup\<close> is what the two signal handlers run before
  \<open>process.exit(0)\<close>.
\<close>

datatype signal = SIGTERM | SIGINT

definition module_load ::
  "(message \<Rightarrow> string + doc) \<Rightarrow> nat list \<Rightarrow> redis \<Rightarrow> redis \<times> queue_event list" where
  "module_load create ts r = startProcessing create ts r"

definition on_signal :: "signal \<Rightarrow> redis \<Rightarrow> redis" where
  "on_signal sg r = cleanup r"

section \<open>History loader (the socket module, the file \<open>part_004\<close>)\<close>

definition BATCH_SIZE :: nat where "BATCH_SIZE = 30"
definition LOAD_DELAY :: nat where "LOAD_DELAY = 300"
definition MAX_RETRIES :: nat where "MAX_RETRIES = 3"
definition RETRY_DELAY :: nat where "RETRY_DELAY = 2000"
definition MESSAGE_LOAD_TIMEOUT :: nat where "MESSAGE_LOAD_TIMEOUT = 10000"
definition DUPLICATE_LOGIN_TIMEOUT :: nat where "DUPLICATE_LOGIN_TIMEOUT = 10000"

text \<open>Errors raised in the socket module; \<open>Thrown\<close> is an error of a collaborator.\<close>

datatype err =
    Unauthorized
  | No_room_info
  | No_room_access
  | Session_expired
  | Room_not_found
  | Load_timed_out
  | Retries_exceeded
  | Authentication_error
  | Invalid_token
  | Token_expired
  | Authentication_failed
  | Invalid_session "string option"
  | User_not_found
  | Thrown string

text \<open>
  How the race between the Mongoose query and the timer of \<open>loadMessages\<close>, set
  to \<open>MESSAGE_LOAD_TIMEOUT\<close> milliseconds, ends: the query resolves first, the query
  rejects first, or the timer wins.
\<close>

datatype 'a settled = Resolved 'a | Rejected string | Timer_won

text \<open>
  The query \<open>Message.find(query).sort({timestamp: -1}).limit(n)\<close> on a collection:
  the documents of the room, older than \<open>before\<close> when \<open>before\<close> is given, newest first,
  at most \<open>n\<close> of them. \<open>before\<close> is \<open>None\<close> when the argument is absent (falsy in the
  source). Documents with equal timestamps come in the reverse of their order in the
  collection; MongoDB fixes no order for them.
\<close>

definition matching :: "doc list \<Rightarrow> string \<Rightarrow> nat option \<Rightarrow> doc list" where
  "matching coll roomId before =
     filter (\<lambda>d. d_room d = roomId \<and>
                   (case before of None \<Rightarrow> True | Some b \<Rightarrow> d_timestamp d < b)) coll"

definition Message_find :: "doc list \<Rightarrow> string \<Rightarrow> nat option \<Rightarrow> nat \<Rightarrow> doc list" where
  "Message_find coll roomId before n =
     take n (rev (sort_key d_timestamp (matching coll roomId before)))"

text \<open>The raced query when the database answers in time.\<close>

definition responsive :: "doc list \<Rightarrow> string \<Rightarrow> nat option \<Rightarrow> nat \<Rightarrow> doc list settled" where
  "responsive coll roomId before n = Resolved (Message_find coll roomId before n)"

record load_result =
  messages :: "doc list"
  hasMore :: bool
  oldestTimestamp :: "nat option"

text \<open>
  \<open>loadMessages\<close>. \<open>query\<close> is the raced query, called with \<open>limit + 1\<close>. The
  comparator of \<open>Array.prototype.sort\<close> orders by timestamp and the sort is stable,
  which is \<open>sort_key\<close>. \<open>sortedMessages[0]?.timestamp || null\<close> is the timestamp of the
  first element, a \<open>Date\<close> object and therefore never falsy.
\<close>

definition loadMessages ::
  "(string \<Rightarrow> nat option \<Rightarrow> nat \<Rightarrow> doc list settled) \<Rightarrow> string \<Rightarrow> nat option \<Rightarrow> nat
     \<Rightarrow> err + load_result" where
  "loadMessages query roomId before limit =
     (case query roomId before (limit + 1) of
        Timer_won \<Rightarrow> Inl Load_timed_out
      | Rejected e \<Rightarrow> Inl (Thrown e)
      | Resolved msgs \<Rightarrow>
          (let hasMore' = (length msgs > limit);
               resultMessages = take limit msgs;
               sortedMessages = sort_key d_timestamp resultMessages
           in Inr \<lparr>messages = sortedMessages, hasMore = hasMore',
                   oldestTimestamp = (case sortedMessages of [] \<Rightarrow> None
                                      | m # _ \<Rightarrow> Some (d_timestamp m))\<rparr>))"

text \<open>
  The fire-and-forget \<open>Message.updateMany\<close> of \<open>loadMessages\<close>: the identifiers it asks
  to mark as read and the reader, when there is a user and something was loaded.
\<close>

definition loadMessages_markRead :: "string option \<Rightarrow> load_result \<Rightarrow> (nat list \<times> string) option" where
  "loadMessages_markRead userId res =
     (case userId of
        None \<Rightarrow> None
      | Some u \<Rightarrow> if length (messages res) > 0 then Some (map d_id (messages res), u) else None)"

text \<open>
  \<open>loadMessagesWithRetry\<close>. \<open>outcomes\<close> lists what the successive calls of
  \<open>loadMessages\<close> return; the result is \<open>None\<close> while the list is too short to settle the
  call. Beside the outcome the function returns the retry counters and the delays it slept.
\<close>

fun loadMessagesWithRetry ::
  "(err + load_result) list \<Rightarrow> string \<Rightarrow> (string \<rightharpoonup> nat) \<Rightarrow> nat list
     \<Rightarrow> ((err + load_result) \<times> (string \<rightharpoonup> nat) \<times> nat list) option" where
  "loadMessagesWithRetry outcomes retryKey retries slept =
     (if (case retries retryKey of None \<Rightarrow> False | Some n \<Rightarrow> n \<ge> MAX_RETRIES)
      then Some (Inl Retries_exceeded, retries(retryKey := None), slept)
      else (case outcomes of
              [] \<Rightarrow> None
            | Inr res # _ \<Rightarrow> Some (Inr res, retries(retryKey := None), slept)
            | Inl e # rest \<Rightarrow>
                (let currentRetries = (case retries retryKey of None \<Rightarrow> 0 | Some n \<Rightarrow> n)
                 in if currentRetries < MAX_RETRIES
                    then loadMessagesWithRetry rest retryKey
                           (retries(retryKey \<mapsto> currentRetries + 1))
                           (slept @ [min (RETRY_DELAY * 2 ^ currentRetries) 10000])
                    else Some (Inl e, retries(retryKey := None), slept))))"

declare loadMessagesWithRetry.simps [simp del]


section \<open>Realtime dispatch (the socket module, the file \<open>part_004\<close>)\<close>

subsection \<open>Sockets, events and the state of the module\<close>

record user =
  uid :: string
  name :: string
  email :: string
  sessionId :: string
  profileImage :: string

text \<open>
  A socket: its identifier, \<open>socket.user\<close>, and what the handshake carries
  (\<open>headers['user-agent']\<close>, \<open>address\<close>, \<open>auth.token\<close>, \<open>auth.sessionId\<close>; \<open>None\<close> is a
  missing or empty value).
\<close>

record socket =
  sid :: string
  user :: "user option"
  userAgent :: string
  address :: string
  token :: "string option"
  auth_sessionId :: "string option"

record profile =
  p_name :: string
  p_email :: string
  p_profileImage :: string

text \<open>The message identifier \<open>`${aiName}-${Date.now()}`\<close>, kept as its two parts.\<close>

type_synonym message_id = "string \<times> nat"

record ai_session =
  s_room :: string
  s_aiType :: string
  s_content :: string
  s_messageId :: message_id
  s_timestamp :: nat
  s_lastUpdate :: nat

record final_content =
  f_content :: string
  completionTokens :: nat
  totalTokens :: nat

record snapshot =
  participants :: "string list"
  sn_messages :: "doc list"
  sn_hasMore :: bool
  sn_oldestTimestamp :: "nat option"
  activeStreams :: "(message_id \<times> string \<times> string \<times> nat) list"

text \<open>
  Server-to-client events. \<open>Connect_error\<close> is what a client receives when the
  middleware calls \<open>next\<close> with an error. The fixed message text of \<open>session_ended\<close> is
  left out, as is the constant \<open>type\<close> of \<open>duplicate_login\<close>.
\<close>

datatype event =
    Connect_error err
  | Duplicate_login string string nat
  | Session_ended string
  | MessageLoadStart
  | PreviousMessagesLoaded load_result
  | Error_event string err
  | JoinRoomSuccess string "snapshot option"
  | JoinRoomError err
  | UserLeft string string
  | Message_event doc
  | ParticipantsUpdate "string list"
  | MessageQueued string nat
  | MessageProcessed string doc
  | MessageError string string
  | AiMessageStart message_id string nat
  | AiMessageChunk message_id "string option" string bool
  | AiMessageComplete message_id nat string
  | AiMessageError message_id string

text \<open>
  Where an \<open>emit\<close> is addressed: one socket (\<open>socket.emit\<close>), a room (\<open>io.to(room)\<close>),
  or a room without one socket (\<open>socket.to(room)\<close>).
\<close>

datatype target = To_socket string | To_room string | To_room_except string string

text \<open>
  What a pending \<open>setTimeout\<close> will do: the timer of \<open>handleDuplicateLogin\<close> (end the
  session of the existing socket, then let the middleware of the new socket continue
  with the decoded user and session identifiers), the timer of the \<open>connection\<close> handler
  (end the session of the previous socket), and the timer of \<open>fetchPreviousMessages\<close>
  (delete the guard of a key).
\<close>

datatype timer_action =
    Evict_and_resume string socket string string
  | Evict string
  | Release_guard string

datatype 'a answer = Returns 'a | Throws string

datatype jwt_result = Decoded "string option" | TokenExpiredError | JsonWebTokenError | Other_error

datatype db_status = Up | Down | Slow

text \<open>
  The state: the clock, the maps of the module, what socket.io holds (the connected
  sockets and the members of each room), the number of listeners registered on the queue
  for each of its two events, the pending timers, the calls of \<open>emit\<close> in order, the
  accepted history loads that have not settled yet (socket and key), and the
  collaborators: token verification, the session service, MongoDB with its collections
  (\<open>Down\<close>: every operation throws; \<open>Slow\<close>: the history query loses against the
  ten-second timer), and the queue store.
\<close>

record server =
  now :: nat
  connectedUsers :: "string \<rightharpoonup> string"
  userRooms :: "string \<rightharpoonup> string"
  messageQueues :: "string \<rightharpoonup> bool"
  messageLoadRetries :: "string \<rightharpoonup> nat"
  streamingSessions :: "(message_id \<times> ai_session) list"
  sockets :: "string \<rightharpoonup> socket"
  rooms :: "string \<Rightarrow> string set"
  processedListeners :: nat
  errorListeners :: nat
  timers :: "(nat \<times> timer_action) list"
  outbox :: "(target \<times> event) list"
  pending_loads :: "(string \<times> string) list"
  jwt_verify :: "string \<Rightarrow> jwt_result"
  validateSession :: "string \<Rightarrow> string \<Rightarrow> (bool \<times> string option) answer"
  updateLastActivity :: "string \<Rightarrow> unit answer"
  db_status :: db_status
  db_users :: "string \<rightharpoonup> profile"
  db_rooms :: "string \<rightharpoonup> string list"
  db_messages :: "doc list"
  queue :: redis

definition emit :: "target \<Rightarrow> event \<Rightarrow> server \<Rightarrow> server" where
  "emit tg ev s = s\<lparr>outbox := outbox s @ [(tg, ev)]\<rparr>"

definition setTimeout :: "nat \<Rightarrow> timer_action \<Rightarrow> server \<Rightarrow> server" where
  "setTimeout delay a s = s\<lparr>timers := timers s @ [(now s + delay, a)]\<rparr>"

subsection \<open>MongoDB operations the handlers use\<close>

definition db_query :: "server \<Rightarrow> string \<Rightarrow> nat option \<Rightarrow> nat \<Rightarrow> doc list settled" where
  "db_query s roomId before n =
     (case db_status s of
        Up \<Rightarrow> responsive (db_messages s) roomId before n
      | Down \<Rightarrow> Rejected ''mongo''
      | Slow \<Rightarrow> Timer_won)"

text \<open>\<open>Room.findOne({_id: roomId, participants: userId})\<close>: is there such a room?\<close>

definition Room_findOne :: "string \<Rightarrow> string \<Rightarrow> server \<Rightarrow> err + bool" where
  "Room_findOne roomId userId s =
     (if db_status s = Down then Inl (Thrown ''mongo'')
      else Inr (case db_rooms s roomId of None \<Rightarrow> False | Some ps \<Rightarrow> userId \<in> set ps))"

text \<open>
  \<open>Room.findByIdAndUpdate\<close> with \<open>$addToSet\<close> and with \<open>$pull\<close> on \<open>participants\<close>,
  returning the updated participants (\<open>new: true\<close>) or nothing when the room does not
  exist. The populated profiles of the participants are not represented.
\<close>

definition Room_addToSet :: "string \<Rightarrow> string \<Rightarrow> server \<Rightarrow> err + (string list option \<times> server)" where
  "Room_addToSet roomId userId s =
     (if db_status s = Down then Inl (Thrown ''mongo'')
      else (case db_rooms s roomId of
              None \<Rightarrow> Inr (None, s)
            | Some ps \<Rightarrow>
                (let ps' = (if userId \<in> set ps then ps else ps @ [userId])
                 in Inr (Some ps', s\<lparr>db_rooms := (db_rooms s)(roomId \<mapsto> ps')\<rparr>))))"

definition Room_pull :: "string \<Rightarrow> string \<Rightarrow> server \<Rightarrow> err + (string list option \<times> server)" where
  "Room_pull roomId userId s =
     (if db_status s = Down then Inl (Thrown ''mongo'')
      else (case db_rooms s roomId of
              None \<Rightarrow> Inr (None, s)
            | Some ps \<Rightarrow>
                (let ps' = removeAll userId ps
                 in Inr (Some ps', s\<lparr>db_rooms := (db_rooms s)(roomId \<mapsto> ps')\<rparr>))))"

text \<open>
  \<open>Message.create\<close> (and \<open>new Message(...).save()\<close>): the document gets an identifier no
  stored document has and the current time as its timestamp.
\<close>

definition Message_create ::
  "string \<Rightarrow> string \<Rightarrow> body \<Rightarrow> server \<Rightarrow> err + (doc \<times> server)" where
  "Message_create roomId ty c s =
     (if db_status s = Down then Inl (Thrown ''mongo'')
      else (let d = \<lparr>d_id = Suc (fold max (map d_id (db_messages s)) 0), d_room = roomId,
                      d_sender = None, d_type = ty, d_content = c, d_timestamp = now s\<rparr>
            in Inr (d, s\<lparr>db_messages := db_messages s @ [d]\<rparr>)))"

definition User_findById :: "string \<Rightarrow> server \<Rightarrow> err + profile option" where
  "User_findById userId s =
     (if db_status s = Down then Inl (Thrown ''mongo'') else Inr (db_users s userId))"

subsection \<open>Disconnecting\<close>

definition endsWith :: "string \<Rightarrow> string \<Rightarrow> bool" where
  "endsWith k suf = (length suf \<le> length k \<and> drop (length k - length suf) k = suf)"

text \<open>
  The \<open>disconnect\<close> handler of a socket. No streaming session is deleted: the handler
  compares \<open>session.userId\<close>, a field \<open>handleAIResponse\<close> never sets. An error of the
  database is caught and logged; what was done before it stays.
\<close>

definition on_disconnect :: "socket \<Rightarrow> string \<Rightarrow> server \<Rightarrow> server" where
  "on_disconnect sock reason s =
     (case user sock of
        None \<Rightarrow> s
      | Some u \<Rightarrow>
          (let s1 = (if connectedUsers s (uid u) = Some (sid sock)
                     then s\<lparr>connectedUsers := (connectedUsers s)(uid u := None)\<rparr> else s);
               roomId = userRooms s1 (uid u);
               s2 = s1\<lparr>userRooms := (userRooms s1)(uid u := None)\<rparr>;
               mine = (\<lambda>key. messageQueues s2 key \<noteq> None \<and> endsWith key ('':'' @ uid u));
               s3 = s2\<lparr>messageQueues := (\<lambda>key. if mine key then None else messageQueues s2 key),
                       messageLoadRetries :=
                         (\<lambda>key. if mine key then None else messageLoadRetries s2 key)\<rparr>
           in case roomId of
                None \<Rightarrow> s3
              | Some rid \<Rightarrow>
                  if reason \<noteq> ''client namespace disconnect'' \<and> reason \<noteq> ''duplicate_login''
                  then (case Message_create rid ''system'' (Connection_lost (name u)) s3 of
                          Inl e \<Rightarrow> s3
                        | Inr (leaveMessage, s4) \<Rightarrow>
                            (case Room_pull rid (uid u) s4 of
                               Inl e \<Rightarrow> s4
                             | Inr (None, s5) \<Rightarrow> s5
                             | Inr (Some ps, s5) \<Rightarrow>
                                 emit (To_room rid) (ParticipantsUpdate ps)
                                   (emit (To_room rid) (Message_event leaveMessage) s5)))
                  else s3))"

text \<open>
  A socket closes (\<open>socket.disconnect(true)\<close> on the server, or the client or the
  transport going away): socket.io drops it from the connected sockets and from every
  room, then the \<open>disconnect\<close> handler runs. Closing a socket that is not connected does
  nothing.
\<close>

definition close_socket :: "string \<Rightarrow> string \<Rightarrow> server \<Rightarrow> server" where
  "close_socket sd reason s =
     (case sockets s sd of
        None \<Rightarrow> s
      | Some sock \<Rightarrow>
          on_disconnect sock reason
            (s\<lparr>sockets := (sockets s)(sd := None), rooms := (\<lambda>r. rooms s r - {sd})\<rparr>))"

text \<open>The body both duplicate-login timers share: \<open>session_ended\<close>, then \<open>disconnect(true)\<close>.\<close>

definition evict :: "string \<Rightarrow> server \<Rightarrow> server" where
  "evict sd s =
     close_socket sd ''server namespace disconnect''
       (emit (To_socket sd) (Session_ended ''duplicate_login'') s)"


subsection \<open>Authentication middleware and the connection handler\<close>

text \<open>
  \<open>io.on('connection')\<close>, with what socket.io does just before it: the socket joins the
  connected sockets. The handler notifies a different connected socket recorded for the
  user and arms its timer, records the new socket, and then registers the handlers of
  the socket. Two of these registrations are \<open>messageQueue.on('messageProcessed')\<close> and
  \<open>messageQueue.on('messageError')\<close>: each connection adds one listener to the queue.
\<close>

definition connection :: "socket \<Rightarrow> server \<Rightarrow> server" where
  "connection sock s =
     (let s0 = s\<lparr>sockets := (sockets s)(sid sock \<mapsto> sock)\<rparr>;
          s1 = (case user sock of
                  None \<Rightarrow> s0
                | Some u \<Rightarrow>
                    (let s' = (case connectedUsers s0 (uid u) of
                                 None \<Rightarrow> s0
                               | Some previousSocketId \<Rightarrow>
                                   if previousSocketId \<noteq> sid sock then
                                     (case sockets s0 previousSocketId of
                                        None \<Rightarrow> s0
                                      | Some previousSocket \<Rightarrow>
                                          setTimeout DUPLICATE_LOGIN_TIMEOUT (Evict previousSocketId)
                                            (emit (To_socket previousSocketId)
                                               (Duplicate_login (userAgent sock) (address sock) (now s0))
                                               s0))
                                   else s0)
                     in s'\<lparr>connectedUsers := (connectedUsers s')(uid u \<mapsto> sid sock)\<rparr>))
      in s1\<lparr>processedListeners := Suc (processedListeners s1),
             errorListeners := Suc (errorListeners s1)\<rparr>)"

definition refuse :: "socket \<Rightarrow> err \<Rightarrow> server \<Rightarrow> server" where
  "refuse sock e s = emit (To_socket (sid sock)) (Connect_error e) s"

text \<open>
  The middleware from \<open>SessionService.validateSession\<close> on. An error thrown by a
  collaborator here has no name the \<open>catch\<close> block knows and becomes
  \<open>Authentication failed\<close>. After \<open>next()\<close> the connection handler runs.
\<close>

definition middleware_resume :: "socket \<Rightarrow> string \<Rightarrow> string \<Rightarrow> server \<Rightarrow> server" where
  "middleware_resume sock userId sessId s =
     (case validateSession s userId sessId of
        Throws e \<Rightarrow> refuse sock Authentication_failed s
      | Returns (isValid, msg) \<Rightarrow>
          if \<not> isValid then refuse sock (Invalid_session msg) s
          else (case User_findById userId s of
                  Inl e \<Rightarrow> refuse sock Authentication_failed s
                | Inr None \<Rightarrow> refuse sock User_not_found s
                | Inr (Some p) \<Rightarrow>
                    (let sock' = sock\<lparr>user := Some \<lparr>uid = userId, name = p_name p,
                                    email = p_email p, sessionId = sessId,
                                    profileImage = p_profileImage p\<rparr>\<rparr>
                     in case updateLastActivity s userId of
                          Throws e \<Rightarrow> refuse sock Authentication_failed s
                        | Returns _ \<Rightarrow> connection sock' s)))"

text \<open>
  \<open>handleDuplicateLogin\<close>: the notice goes out at once; the promise the middleware
  awaits resolves only inside the timer, after \<open>session_ended\<close> and the disconnect.
\<close>

definition handleDuplicateLogin :: "string \<Rightarrow> socket \<Rightarrow> string \<Rightarrow> string \<Rightarrow> server \<Rightarrow> server" where
  "handleDuplicateLogin existingSocketId newSocket userId sessId s =
     setTimeout DUPLICATE_LOGIN_TIMEOUT (Evict_and_resume existingSocketId newSocket userId sessId)
       (emit (To_socket existingSocketId)
          (Duplicate_login (userAgent newSocket) (address newSocket) (now s)) s)"

text \<open>\<open>io.use\<close>: the middleware up to the point where it either finishes or waits.\<close>

definition middleware :: "socket \<Rightarrow> server \<Rightarrow> server" where
  "middleware sock s =
     (case (token sock, auth_sessionId sock) of
        (Some tok, Some sessId) \<Rightarrow>
          (case jwt_verify s tok of
             Decoded None \<Rightarrow> refuse sock Invalid_token s
           | Decoded (Some userId) \<Rightarrow>
               (case connectedUsers s userId of
                  None \<Rightarrow> middleware_resume sock userId sessId s
                | Some existingSocketId \<Rightarrow>
                    (case sockets s existingSocketId of
                       None \<Rightarrow> middleware_resume sock userId sessId s
                     | Some existingSocket \<Rightarrow>
                         handleDuplicateLogin existingSocketId sock userId sessId s))
           | TokenExpiredError \<Rightarrow> refuse sock Token_expired s
           | JsonWebTokenError \<Rightarrow> refuse sock Invalid_token s
           | Other_error \<Rightarrow> refuse sock Authentication_failed s)
      | _ \<Rightarrow> refuse sock Authentication_error s)"

definition run_timer :: "timer_action \<Rightarrow> server \<Rightarrow> server" where
  "run_timer a s =
     (case a of
        Evict_and_resume existingSocketId newSocket userId sessId \<Rightarrow>
          middleware_resume newSocket userId sessId (evict existingSocketId s)
      | Evict previousSocketId \<Rightarrow> evict previousSocketId s
      | Release_guard queueKey \<Rightarrow> s\<lparr>messageQueues := (messageQueues s)(queueKey := None)\<rparr>)"

subsection \<open>joinRoom\<close>

definition joinRoomError :: "socket \<Rightarrow> err \<Rightarrow> server \<Rightarrow> server" where
  "joinRoomError sock e s = emit (To_socket (sid sock)) (JoinRoomError e) s"

definition joinRoom :: "socket \<Rightarrow> string \<Rightarrow> server \<Rightarrow> server" where
  "joinRoom sock roomId s =
     (case user sock of
        None \<Rightarrow> joinRoomError sock Unauthorized s
      | Some u \<Rightarrow>
          (let currentRoom = userRooms s (uid u) in
           if currentRoom = Some roomId
           then emit (To_socket (sid sock)) (JoinRoomSuccess roomId None) s
           else
             (let s1 = (case currentRoom of
                          None \<Rightarrow> s
                        | Some cur \<Rightarrow>
                            emit (To_room_except cur (sid sock)) (UserLeft (uid u) (name u))
                              (s\<lparr>rooms := (rooms s)(cur := rooms s cur - {sid sock}),
                                 userRooms := (userRooms s)(uid u := None)\<rparr>))
              in case Room_addToSet roomId (uid u) s1 of
                   Inl e \<Rightarrow> joinRoomError sock e s1
                 | Inr (None, s2) \<Rightarrow> joinRoomError sock Room_not_found s2
                 | Inr (Some ps, s2) \<Rightarrow>
                     (let s3 = s2\<lparr>rooms := (rooms s2)(roomId := insert (sid sock) (rooms s2 roomId)),
                                  userRooms := (userRooms s2)(uid u \<mapsto> roomId)\<rparr>
                      in case Message_create roomId ''system'' (Entered (name u)) s3 of
                           Inl e \<Rightarrow> joinRoomError sock e s3
                         | Inr (joinMessage, s4) \<Rightarrow>
                             (case loadMessages (db_query s4) roomId None BATCH_SIZE of
                                Inl e \<Rightarrow> joinRoomError sock e s4
                              | Inr res \<Rightarrow>
                                  (let streams =
                                         map (\<lambda>(k, se). (s_messageId se, s_aiType se, s_content se,
                                                         s_timestamp se))
                                           (filter (\<lambda>(k, se). s_room se = roomId)
                                              (streamingSessions s4))
                                   in emit (To_room roomId) (ParticipantsUpdate ps)
                                        (emit (To_room roomId) (Message_event joinMessage)
                                           (emit (To_socket (sid sock))
                                              (JoinRoomSuccess roomId
                                                 (Some \<lparr>participants = ps,
                                                         sn_messages = messages res,
                                                         sn_hasMore = hasMore res,
                                                         sn_oldestTimestamp = oldestTimestamp res,
                                                         activeStreams = streams\<rparr>))
                                              s4))))))))"

subsection \<open>fetchPreviousMessages\<close>

text \<open>
  The \<open>finally\<close> block: whatever path the handler took inside \<open>try\<close>, a timer is armed
  that deletes the guard of the key \<open>LOAD_DELAY\<close> milliseconds later.
\<close>

definition release_later :: "string \<Rightarrow> server \<Rightarrow> server" where
  "release_later queueKey s = setTimeout LOAD_DELAY (Release_guard queueKey) s"

definition load_error :: "socket \<Rightarrow> err \<Rightarrow> server \<Rightarrow> server" where
  "load_error sock e s = emit (To_socket (sid sock)) (Error_event ''LOAD_ERROR'' e) s"

text \<open>
  The handler up to the call of \<open>loadMessagesWithRetry\<close>. The key is computed before
  \<open>try\<close>, so a socket without a user makes the handler throw outside \<open>try\<close> and
  \<open>finally\<close>. An accepted request sets the guard, emits \<open>messageLoadStart\<close> and is
  recorded as pending; a request that finds the guard set returns without emitting.
\<close>

definition fetchPreviousMessages :: "socket \<Rightarrow> string \<Rightarrow> nat option \<Rightarrow> server \<Rightarrow> server" where
  "fetchPreviousMessages sock roomId before s =
     (case user sock of
        None \<Rightarrow> s
      | Some u \<Rightarrow>
          (let queueKey = roomId @ '':'' @ uid u in
           case Room_findOne roomId (uid u) s of
             Inl e \<Rightarrow> release_later queueKey (load_error sock e s)
           | Inr False \<Rightarrow> release_later queueKey (load_error sock No_room_access s)
           | Inr True \<Rightarrow>
               if messageQueues s queueKey = Some True then release_later queueKey s
               else emit (To_socket (sid sock)) MessageLoadStart
                      (s\<lparr>messageQueues := (messageQueues s)(queueKey \<mapsto> True),
                         pending_loads := pending_loads s @ [(sid sock, queueKey)]\<rparr>)))"

text \<open>
  The rest of the handler, run when \<open>loadMessagesWithRetry\<close> settles: \<open>outcomes\<close> are
  the results of its calls of \<open>loadMessages\<close>. \<open>None\<close> when no such load is pending or
  the outcomes do not settle it.
\<close>

definition load_settles :: "string \<Rightarrow> string \<Rightarrow> (err + load_result) list \<Rightarrow> server \<Rightarrow> server option" where
  "load_settles sd queueKey outcomes s =
     (if (sd, queueKey) \<notin> set (pending_loads s) then None
      else (case loadMessagesWithRetry outcomes queueKey (messageLoadRetries s) [] of
              None \<Rightarrow> None
            | Some (res, retries, slept) \<Rightarrow>
                (let s1 = s\<lparr>messageLoadRetries := retries,
                            pending_loads := remove1 (sd, queueKey) (pending_loads s)\<rparr>
                 in Some (release_later queueKey
                      (case res of
                         Inr result \<Rightarrow> emit (To_socket sd) (PreviousMessagesLoaded result) s1
                       | Inl e \<Rightarrow> emit (To_socket sd) (Error_event ''LOAD_ERROR'' e) s1)))))"



subsection \<open>chatMessage\<close>

text \<open>
  The payload of a \<open>chatMessage\<close> event; \<open>None\<close> is a missing or empty value.
\<close>

record chat_data =
  c_room :: "string option"
  c_type :: string
  c_content :: "string option"
  c_fileData :: "string option"
  c_tempId :: string

text \<open>\<open>String.prototype.trim\<close> on the white space of ASCII.\<close>

definition is_space :: "char \<Rightarrow> bool" where
  "is_space c = (c \<in> set [CHR '' '', CHR 0x09, CHR 0x0A, CHR 0x0B, CHR 0x0C, CHR 0x0D])"

definition trim :: "string \<Rightarrow> string" where
  "trim x = rev (dropWhile is_space (rev (dropWhile is_space x)))"

definition chat_error :: "socket \<Rightarrow> err \<Rightarrow> server \<Rightarrow> server" where
  "chat_error sock e s = emit (To_socket (sid sock)) (Error_event ''MESSAGE_ERROR'' e) s"

text \<open>
  The handler awaits \<open>messageQueue.enqueue(queueMessage)\<close> and does not look at the
  value it resolves to. The error event carries the code \<open>MESSAGE_ERROR\<close> unless the
  error thrown has a code of its own; none of the errors here has one.
\<close>

definition chatMessage :: "socket \<Rightarrow> chat_data \<Rightarrow> server \<Rightarrow> server" where
  "chatMessage sock messageData s =
     (case user sock of
        None \<Rightarrow> chat_error sock Unauthorized s
      | Some u \<Rightarrow>
          (case c_room messageData of
             None \<Rightarrow> chat_error sock No_room_info s
           | Some rm \<Rightarrow>
               (case Room_findOne rm (uid u) s of
                  Inl e \<Rightarrow> chat_error sock e s
                | Inr False \<Rightarrow> chat_error sock No_room_access s
                | Inr True \<Rightarrow>
                    (case validateSession s (uid u) (sessionId u) of
                       Throws e \<Rightarrow> chat_error sock (Thrown e) s
                     | Returns (isValid, msg) \<Rightarrow>
                         if \<not> isValid then chat_error sock Session_expired s
                         else
                           (let queueMessage =
                                  \<lparr>room = rm, sender = uid u, mtype = c_type messageData,
                                   content =
                                     (if c_type messageData = ''text''
                                      then map_option trim (c_content messageData)
                                      else Some (case c_content messageData of
                                                   None \<Rightarrow> [] | Some c \<Rightarrow> c)),
                                   fileData =
                                     (if c_type messageData = ''file''
                                      then c_fileData messageData else None),
                                   tempId = c_tempId messageData,
                                   metadata = (sessionId u, userAgent sock, address sock),
                                   attemptCount = None, queuedAt = None,
                                   error = None, failedAt = None\<rparr>;
                                s1 = s\<lparr>queue := snd (enqueue (now s) queueMessage (queue s))\<rparr>
                            in case updateLastActivity s1 (uid u) of
                                 Throws e \<Rightarrow> chat_error sock (Thrown e) s1
                               | Returns _ \<Rightarrow>
                                   emit (To_socket (sid sock))
                                     (MessageQueued (c_tempId messageData) (now s1)) s1)))))"

subsection \<open>The listeners on the queue\<close>

definition messageProcessed_listener :: "doc \<Rightarrow> message \<Rightarrow> server \<Rightarrow> server" where
  "messageProcessed_listener msg originalMessage s =
     (let s1 = (case connectedUsers s (sender originalMessage) of
                  None \<Rightarrow> s
                | Some senderSocketId \<Rightarrow>
                    (case sockets s senderSocketId of
                       None \<Rightarrow> s
                     | Some sock \<Rightarrow>
                         emit (To_socket senderSocketId)
                           (MessageProcessed (tempId originalMessage) msg) s))
      in emit (To_room (d_room msg)) (Message_event msg) s1)"

definition messageError_listener :: "string \<Rightarrow> message \<Rightarrow> server \<Rightarrow> server" where
  "messageError_listener e originalMessage s =
     (case connectedUsers s (sender originalMessage) of
        None \<Rightarrow> s
      | Some senderSocketId \<Rightarrow>
          (case sockets s senderSocketId of
             None \<Rightarrow> s
           | Some sock \<Rightarrow>
               emit (To_socket senderSocketId) (MessageError (tempId originalMessage) e) s))"

text \<open>
  \<open>EventEmitter.emit\<close> calls every listener registered for the event, one after the
  other. No listener is ever removed.
\<close>

definition queue_emits :: "queue_event \<Rightarrow> server \<Rightarrow> server" where
  "queue_emits ev s =
     (case ev of
        QMessageProcessed msg originalMessage \<Rightarrow>
          ((messageProcessed_listener msg originalMessage) ^^ (processedListeners s)) s
      | QMessageError e originalMessage \<Rightarrow>
          ((messageError_listener e originalMessage) ^^ (errorListeners s)) s)"

text \<open>One turn of the processing loop inside the server, with its events dispatched.\<close>

definition queue_turn :: "(message \<Rightarrow> string + doc) \<Rightarrow> server \<Rightarrow> server" where
  "queue_turn create s =
     (let (q, evs) = processing_turn create (now s) (queue s)
      in fold queue_emits evs (s\<lparr>queue := q\<rparr>))"

subsection \<open>Streaming aggregator\<close>

text \<open>
  What \<open>aiService.generateResponse\<close> does with the callbacks it is given is not part of
  this module: it is a script of callback invocations, each with the clock reading at
  that moment, and then the promise resolves or rejects.
\<close>

datatype callback =
    OnStart
  | OnChunk "string option" bool
  | OnComplete final_content
  | OnError string

datatype ending = Resolves | Rejects string

fun session_set :: "message_id \<Rightarrow> ai_session \<Rightarrow> (message_id \<times> ai_session) list
    \<Rightarrow> (message_id \<times> ai_session) list" where
  "session_set k v [] = [(k, v)]"
| "session_set k v ((k', v') # xs) =
     (if k = k' then (k, v) # xs else (k', v') # session_set k v xs)"

definition session_delete :: "message_id \<Rightarrow> server \<Rightarrow> server" where
  "session_delete k s = s\<lparr>streamingSessions := filter (\<lambda>(k', v). k' \<noteq> k) (streamingSessions s)\<rparr>"

text \<open>What a chunk adds to the accumulated content: \<open>chunk.currentChunk || ''\<close>.\<close>

definition piece :: "string option \<Rightarrow> string" where
  "piece c = (case c of None \<Rightarrow> [] | Some x \<Rightarrow> x)"

text \<open>
  One callback of \<open>handleAIResponse\<close>; \<open>acc\<close> is the variable \<open>accumulatedContent\<close>.
  When \<open>Message.create\<close> throws inside \<open>onComplete\<close> nothing is emitted.
\<close>

definition ai_callback ::
  "string \<Rightarrow> string \<Rightarrow> message_id \<Rightarrow> callback \<Rightarrow> string \<times> server \<Rightarrow> string \<times> server" where
  "ai_callback rm aiName messageId cb st =
     (let acc = fst st; s = snd st in
      case cb of
        OnStart \<Rightarrow> (acc, s)
      | OnChunk currentChunk isCodeBlock \<Rightarrow>
          (let acc' = acc @ piece currentChunk;
               s1 = s\<lparr>streamingSessions :=
                      map (\<lambda>(k, se). if k = messageId
                                      then (k, se\<lparr>s_content := acc', s_lastUpdate := now s\<rparr>)
                                      else (k, se))
                        (streamingSessions s)\<rparr>
           in (acc', emit (To_room rm) (AiMessageChunk messageId currentChunk acc' isCodeBlock) s1))
      | OnComplete finalContent \<Rightarrow>
          (let s1 = session_delete messageId s in
           case Message_create rm ''ai'' (Text (f_content finalContent)) s1 of
             Inl e \<Rightarrow> (acc, s1)
           | Inr (aiMessage, s2) \<Rightarrow>
               (acc, emit (To_room rm)
                       (AiMessageComplete messageId (d_id aiMessage) (f_content finalContent)) s2))
      | OnError e \<Rightarrow>
          (acc, emit (To_room rm) (AiMessageError messageId e) (session_delete messageId s)))"

fun ai_callbacks ::
  "string \<Rightarrow> string \<Rightarrow> message_id \<Rightarrow> (nat \<times> callback) list \<Rightarrow> string \<times> server
     \<Rightarrow> string \<times> server" where
  "ai_callbacks rm aiName messageId [] st = st"
| "ai_callbacks rm aiName messageId ((t, cb) # rest) st =
     ai_callbacks rm aiName messageId rest
       (ai_callback rm aiName messageId cb (fst st, (snd st)\<lparr>now := t\<rparr>))"

definition handleAIResponse ::
  "string \<Rightarrow> string \<Rightarrow> (nat \<times> callback) list \<Rightarrow> ending \<Rightarrow> server \<Rightarrow> server" where
  "handleAIResponse rm aiName script fin s =
     (let messageId = (aiName, now s);
          s1 = s\<lparr>streamingSessions :=
                 session_set messageId
                   \<lparr>s_room = rm, s_aiType = aiName, s_content = [], s_messageId = messageId,
                    s_timestamp = now s, s_lastUpdate = now s\<rparr>
                   (streamingSessions s)\<rparr>;
          s2 = emit (To_room rm) (AiMessageStart messageId aiName (now s)) s1;
          s3 = snd (ai_callbacks rm aiName messageId script ([], s2))
      in case fin of
           Resolves \<Rightarrow> s3
         | Rejects e \<Rightarrow> emit (To_room rm) (AiMessageError messageId e) (session_delete messageId s3))"

text \<open>
  A responder that delivers chunks and nothing else: each chunk with the clock reading
  at its delivery and its \<open>isCodeBlock\<close> flag.
\<close>

definition chunk_script :: "(nat \<times> string option \<times> bool) list \<Rightarrow> (nat \<times> callback) list" where
  "chunk_script chunks = map (\<lambda>(t, c, b). (t, OnChunk c b)) chunks"

text \<open>
  The \<open>aiMessageChunk\<close> event expected for the chunk at position \<open>i\<close>: the chunk itself
  and, as full content, what was accumulated before the script (\<open>acc\<close>) followed by the
  pieces of the chunks up to and including this one.
\<close>

definition chunk_event ::
  "message_id \<Rightarrow> string \<Rightarrow> (nat \<times> string option \<times> bool) list \<Rightarrow> nat \<Rightarrow> event" where
  "chunk_event mid acc chunks i =
     AiMessageChunk mid (fst (snd (chunks ! i)))
       (acc @ concat (take (Suc i) (map (\<lambda>(t, c, b). piece c) chunks)))
       (snd (snd (chunks ! i)))"

subsection \<open>The event loop\<close>

text \<open>
  What can happen to the server: a client opens a connection (the socket given is new),
  a socket closes for a reason, a connected socket sends one of the three requests, a
  pending history load settles, the queue emits an event, or the processing loop takes a
  turn in which the persistence adapter behaves as given.
\<close>

datatype request =
    Handshake socket
  | Closes string string
  | JoinRoom string string
  | FetchPreviousMessages string string "nat option"
  | LoadSettles string string "(err + load_result) list"
  | ChatMessage string chat_data
  | QueueEmits queue_event
  | LoopTurn "message \<Rightarrow> string + doc"

definition handle :: "request \<Rightarrow> server \<Rightarrow> server option" where
  "handle rq s =
     (case rq of
        Handshake sock \<Rightarrow>
          (case sockets s (sid sock) of None \<Rightarrow> Some (middleware sock s) | Some _ \<Rightarrow> None)
      | Closes sd reason \<Rightarrow>
          (case sockets s sd of None \<Rightarrow> None | Some _ \<Rightarrow> Some (close_socket sd reason s))
      | JoinRoom sd roomId \<Rightarrow>
          (case sockets s sd of None \<Rightarrow> None | Some sock \<Rightarrow> Some (joinRoom sock roomId s))
      | FetchPreviousMessages sd roomId before \<Rightarrow>
          (case sockets s sd of
             None \<Rightarrow> None
           | Some sock \<Rightarrow> Some (fetchPreviousMessages sock roomId before s))
      | LoadSettles sd queueKey outcomes \<Rightarrow> load_settles sd queueKey outcomes s
      | ChatMessage sd messageData \<Rightarrow>
          (case sockets s sd of None \<Rightarrow> None | Some sock \<Rightarrow> Some (chatMessage sock messageData s))
      | QueueEmits ev \<Rightarrow> Some (queue_emits ev s)
      | LoopTurn create \<Rightarrow> Some (queue_turn create s))"

text \<open>
  A run is a list of labels. \<open>At t rq\<close>: the request arrives when the clock reads \<open>t\<close>;
  this is possible only if the clock has not passed \<open>t\<close> and no pending timer is due
  before \<open>t\<close>. \<open>Fire\<close>: the pending timer that is due first (the one armed first among
  equals) fires, at its due time or now if that has passed. \<open>None\<close> marks a run that
  cannot happen.
\<close>

datatype label = At nat request | Fire

definition step :: "label \<Rightarrow> server \<Rightarrow> server option" where
  "step l s =
     (case l of
        At t rq \<Rightarrow>
          if now s \<le> t \<and> list_all (\<lambda>(due, a). t \<le> due) (timers s)
          then handle rq (s\<lparr>now := t\<rparr>) else None
      | Fire \<Rightarrow>
          (case sort_key fst (timers s) of
             [] \<Rightarrow> None
           | (due, a) # _ \<Rightarrow>
               Some (run_timer a (s\<lparr>now := max (now s) due,
                                    timers := remove1 (due, a) (timers s)\<rparr>))))"

fun run :: "label list \<Rightarrow> server \<Rightarrow> server option" where
  "run [] s = Some s"
| "run (l # ls) s = (case step l s of None \<Rightarrow> None | Some s' \<Rightarrow> run ls s')"


text \<open>
  What one observes of the outcome of a run: the clock, the calls of \<open>emit\<close>, the
  socket recorded for a user, whether a socket is connected, and the incoming lane.
\<close>

definition clock :: "server option \<Rightarrow> nat option" where
  "clock r = (case r of None \<Rightarrow> None | Some s \<Rightarrow> Some (now s))"

definition sent :: "server option \<Rightarrow> (target \<times> event) list" where
  "sent r = (case r of None \<Rightarrow> [] | Some s \<Rightarrow> outbox s)"

definition entry_of :: "string \<Rightarrow> server option \<Rightarrow> string option" where
  "entry_of userId r = (case r of None \<Rightarrow> None | Some s \<Rightarrow> connectedUsers s userId)"

definition connected :: "string \<Rightarrow> server option \<Rightarrow> bool" where
  "connected sd r = (case r of None \<Rightarrow> False | Some s \<Rightarrow> sockets s sd \<noteq> None)"

definition incoming :: "server option \<Rightarrow> message list" where
  "incoming r = (case r of None \<Rightarrow> [] | Some s \<Rightarrow> chat_messages (queue s))"

section \<open>Example data\<close>

definition example_message :: message where
  "example_message =
     \<lparr>room = ''R1'', sender = ''u1'', mtype = ''text'', content = Some ''hi'', fileData = None,
      tempId = ''t1'', metadata = (''sess'', ''agent-a'', ''10.0.0.1''),
      attemptCount = Some 0, queuedAt = Some 0, error = None, failedAt = None\<rparr>"

definition example_store :: redis where
  "example_store = \<lparr>chat_messages = [example_message], processing_messages = [],
                     dead_letter_messages = [], reachable = True\<rparr>"

definition parked_store :: redis where
  "parked_store = \<lparr>chat_messages = [], processing_messages = [example_message],
                    dead_letter_messages = [], reachable = True\<rparr>"

text \<open>
  \<open>fetchPage\<close> as the specification words it: of the up to \<open>limit + 1\<close> records fetched,
  the oldest \<open>limit\<close> in ascending order, the flag, and the oldest returned timestamp.
\<close>

definition fetchPage_spec :: "doc list \<Rightarrow> string \<Rightarrow> nat option \<Rightarrow> nat \<Rightarrow> load_result" where
  "fetchPage_spec coll roomId before limit =
     (let fetched = Message_find coll roomId before (limit + 1);
          page = take limit (sort_key d_timestamp fetched)
      in \<lparr>messages = page, hasMore = (length fetched > limit),
          oldestTimestamp = (case page of [] \<Rightarrow> None | m # _ \<Rightarrow> Some (d_timestamp m))\<rparr>)"

definition posted :: "nat \<Rightarrow> doc" where
  "posted t = \<lparr>d_id = t, d_room = ''R1'', d_sender = Some ''u1'', d_type = ''text'',
             d_content = Text ''hi'', d_timestamp = t\<rparr>"

text \<open>A persistence adapter that stores every message.\<close>

definition storing :: "message \<Rightarrow> string + doc" where
  "storing m = Inr \<lparr>d_id = 1, d_room = room m, d_sender = Some (sender m), d_type = mtype m,
                     d_content = Text (case content m of None \<Rightarrow> [] | Some c \<Rightarrow> c),
                     d_timestamp = 7\<rparr>"

definition alice :: profile where
  "alice = \<lparr>p_name = ''Alice'', p_email = ''alice@example.org'', p_profileImage = ''a.png''\<rparr>"

definition bob :: profile where
  "bob = \<lparr>p_name = ''Bob'', p_email = ''bob@example.org'', p_profileImage = ''b.png''\<rparr>"

text \<open>
  A server just started: nobody connected, two users and one room with both as
  participants in the database, every collaborator answering.
\<close>

definition example_server :: server where
  "example_server =
     \<lparr>now = 0, connectedUsers = Map.empty, userRooms = Map.empty, messageQueues = Map.empty,
      messageLoadRetries = Map.empty, streamingSessions = [], sockets = Map.empty,
      rooms = (\<lambda>r. {}), processedListeners = 0, errorListeners = 0, timers = [], outbox = [],
      pending_loads = [],
      jwt_verify = (\<lambda>tok. if tok = ''tokA'' then Decoded (Some ''u1'')
                          else if tok = ''tokB'' then Decoded (Some ''u2'')
                          else JsonWebTokenError),
      validateSession = (\<lambda>u sess. Returns (True, None)),
      updateLastActivity = (\<lambda>u. Returns ()),
      db_status = Up, db_users = [''u1'' \<mapsto> alice, ''u2'' \<mapsto> bob],
      db_rooms = [''R1'' \<mapsto> [''u1'', ''u2'']], db_messages = [],
      queue = \<lparr>chat_messages = [], processing_messages = [], dead_letter_messages = [],
               reachable = True\<rparr>\<rparr>"

text \<open>A client device opening a connection with a token.\<close>

definition device :: "string \<Rightarrow> string \<Rightarrow> socket" where
  "device i tok = \<lparr>sid = i, user = None, userAgent = ''agent-'' @ i, address = ''10.0.0.1'',
                   token = Some tok, auth_sessionId = Some ''sess''\<rparr>"

definition hello :: chat_data where
  "hello = \<lparr>c_room = Some ''R1'', c_type = ''text'', c_content = Some ''hi'',
             c_fileData = None, c_tempId = ''t1''\<rparr>"

text \<open>Alice's socket once it is authenticated, and the server with that socket connected.\<close>

definition alice_socket :: socket where
  "alice_socket = (device ''a'' ''tokA'')\<lparr>user := Some \<lparr>uid = ''u1'', name = ''Alice'',
     email = ''alice@example.org'', sessionId = ''sess'', profileImage = ''a.png''\<rparr>\<rparr>"

definition alice_online :: server where
  "alice_online = connection alice_socket example_server"

definition joined_server :: server where
  "joined_server = joinRoom alice_socket ''R1'' alice_online"

text \<open>The document \<open>storing\<close> makes of the submission \<open>hello\<close>.\<close>

definition stored :: doc where
  "stored = \<lparr>d_id = 1, d_room = ''R1'', d_sender = Some ''u1'', d_type = ''text'',
             d_content = Text ''hi'', d_timestamp = 7\<rparr>"

text \<open>The chunks of a generation, and a final content as a responder reports it.\<close>

definition hello_chunks :: "(nat \<times> string option \<times> bool) list" where
  "hello_chunks = [(1, Some ''Hel'', False), (2, Some ''lo, '', False), (3, Some ''world'', False)]"

definition reported :: "string \<Rightarrow> final_content" where
  "reported c = \<lparr>f_content = c, completionTokens = 3, totalTokens = 12\<rparr>"

text \<open>A persistence adapter that fails on every message.\<close>

definition failing :: "message \<Rightarrow> string + doc" where
  "failing m = Inl ''write failed''"

text \<open>
  An entry is \<open>below_budget\<close> when one more failure does not exhaust the retries.
\<close>

definition below_budget :: "message \<Rightarrow> bool" where
  "below_budget m = ((case attemptCount m of None \<Rightarrow> 0 | Some k \<Rightarrow> k) + 1 < maxRetries)"

section \<open>Properties of the queue engine\<close>

lemmas queue_defs = processing_turn_def rpoplpush_def processMessage_def lrem_def on_failure_def
  moveToDeadLetter_def enqueue_def rpush_def maxRetries_def

lemma enqueue_unreachable: "\<not> reachable r \<Longrightarrow> enqueue t m r = (False, r)"
  by (simp add: enqueue_def rpush_def)

lemma enqueue_reachable:
  "reachable r \<Longrightarrow>
   enqueue t m r =
     (True, r\<lparr>chat_messages := chat_messages r @ [m\<lparr>attemptCount := Some 0, queuedAt := Some t\<rparr>]\<rparr>)"
  by (simp add: enqueue_def rpush_def)

lemma turn_keeps_parked:
  "processing_messages (fst (processing_turn create t r)) = processing_messages r"
  by (simp add: queue_defs Let_def split: option.splits sum.splits prod.splits if_splits)

lemma startProcessing_keeps_parked:
  "processing_messages (fst (startProcessing create ts r)) = processing_messages r"
proof (induction ts arbitrary: r)
  case Nil
  then show ?case by simp
next
  case (Cons t ts)
  show ?case
    using Cons.IH [of "fst (processing_turn create t r)"] turn_keeps_parked [of create t r]
    by (simp add: split_beta)
qed

lemma cleanup_moves_all:
  "reachable r \<Longrightarrow>
   cleanup r = r\<lparr>chat_messages := chat_messages r @ processing_messages r,
                 processing_messages := []\<rparr>"
  by (cases "processing_messages r") (simp_all add: cleanup_def lrange_all_def multi_del_rpush_def)

text \<open>
  Whatever the adapter does, a turn on a lane of entries below the budget leaves such a
  lane and writes nothing to the dead-letter lane: the entry a failure puts back has
  been through \<open>enqueue\<close> and counts zero attempts.
\<close>

lemma turn_never_dead_letters:
  "list_all below_budget (chat_messages r) \<Longrightarrow>
   list_all below_budget (chat_messages (fst (processing_turn create t r))) \<and>
   dead_letter_messages (fst (processing_turn create t r)) = dead_letter_messages r"
  by (cases "chat_messages r" rule: rev_cases)
     (simp_all add: queue_defs Let_def below_budget_def
        split: option.splits sum.splits prod.splits if_splits)

lemma startProcessing_never_dead_letters:
  "list_all below_budget (chat_messages r) \<Longrightarrow>
   dead_letter_messages (fst (startProcessing create ts r)) = dead_letter_messages r"
proof (induction ts arbitrary: r)
  case Nil
  then show ?case by simp
next
  case (Cons t ts)
  from turn_never_dead_letters [OF Cons.prems, of create t]
  have inv: "list_all below_budget (chat_messages (fst (processing_turn create t r)))"
    and dl: "dead_letter_messages (fst (processing_turn create t r)) = dead_letter_messages r"
    by simp_all
  show ?case
    using Cons.IH [OF inv] dl by (simp add: split_beta)
qed

text \<open>
  C1. On a processing failure the entry should go back to the incoming lane carrying
  the incremented \<open>attemptCount\<close>, and be dead-lettered once the count reaches
  \<open>maxRetries\<close>. The code does increment the count, but puts the entry back through
  \<open>enqueue\<close>, which writes \<open>attemptCount: 0\<close>. With an adapter that always fails, five
  turns on one entry end with the entry in the incoming lane, counting zero attempts, an
  empty dead-letter lane, and five \<open>messageError\<close> events.
\<close>

theorem retry_forgets_attemptCount:
  "fst (startProcessing failing [1, 2, 3, 4, 5] example_store) =
     example_store\<lparr>chat_messages := [example_message\<lparr>queuedAt := Some 5\<rparr>]\<rparr>
   \<and> length (snd (startProcessing failing [1, 2, 3, 4, 5] example_store)) = 5
   \<and> attemptCount (example_message\<lparr>queuedAt := Some 5\<rparr>) = Some 0
   \<and> dead_letter_messages (fst (startProcessing failing [1, 2, 3, 4, 5] example_store)) = []"
  by (simp add: queue_defs example_store_def example_message_def failing_def Let_def)

text \<open>
  C8, as stated: recovery runs at startup and empties the in-flight lane. Loading the
  module starts the processing loop and nothing else; an entry parked in the in-flight
  lane is still there, and not in the incoming lane, after the loop has run.
\<close>

theorem startup_leaves_parked_counterexample:
  "processing_messages (fst (module_load failing [1, 2, 3] parked_store)) = [example_message]
   \<and> chat_messages (fst (module_load failing [1, 2, 3] parked_store)) = []"
  by (simp add: module_load_def queue_defs parked_store_def example_message_def failing_def Let_def)

text \<open>
  C8, amended: recovery is \<open>cleanup\<close>, run by the handlers of SIGTERM and SIGINT before
  the process exits. With the store reachable it appends every entry of the in-flight
  lane, in order, to the incoming lane, leaves the in-flight lane empty and the
  dead-letter lane as it was. Loading the module runs no recovery: the processing loop
  leaves the entries parked in the in-flight lane where they are.
\<close>

theorem recovery_runs_on_signal:
  "reachable r \<Longrightarrow>
     on_signal sg r = r\<lparr>chat_messages := chat_messages r @ processing_messages r,
                         processing_messages := []\<rparr>
   \<and> processing_messages (on_signal sg r) = []
   \<and> dead_letter_messages (on_signal sg r) = dead_letter_messages r
   \<and> processing_messages (fst (module_load create ts r)) = processing_messages r"
  by (simp add: on_signal_def cleanup_moves_all module_load_def startProcessing_keeps_parked)

theorem recovery_runs_on_signal_witness:
  "reachable parked_store
   \<and> on_signal SIGTERM parked_store =
       parked_store\<lparr>chat_messages := [example_message], processing_messages := []\<rparr>
   \<and> processing_messages (fst (module_load failing [1, 2, 3] parked_store)) = [example_message]"
proof -
  have h: "reachable parked_store" by (simp add: parked_store_def)
  show ?thesis
    using h recovery_runs_on_signal [OF h, of SIGTERM failing "[1, 2, 3]"]
    by (simp add: parked_store_def)
qed


section \<open>Properties of the history loader\<close>

lemma map_insort_key: "map f (insort_key f x xs) = insort (f x) (map f xs)"
  by (induction xs) simp_all

lemma map_sort_key: "map f (sort_key f xs) = sort (map f xs)"
  by (induction xs) (simp_all add: map_insort_key)

lemma sort_rev_sorted: "sorted xs \<Longrightarrow> sort (rev xs) = xs"
  by (rule properties_for_sort) simp_all

lemma sorted_head_Min: "sorted (x # xs) \<Longrightarrow> Min (set (x # xs)) = (x::nat)"
  by (intro Min_eqI) auto

lemma page_timestamps:
  "map d_timestamp (sort_key d_timestamp (take limit (rev (sort_key d_timestamp ms)))) =
     drop (length ms - limit) (sort (map d_timestamp ms))"
proof -
  let ?S = "sort_key d_timestamp ms"
  let ?E = "drop (length ms - limit) (sort (map d_timestamp ms))"
  have E: "map d_timestamp (drop (length ms - limit) ?S) = ?E"
    by (simp only: drop_map [symmetric] map_sort_key)
  have "map d_timestamp (sort_key d_timestamp (take limit (rev ?S)))
        = sort (map d_timestamp (rev (drop (length ms - limit) ?S)))"
    by (simp only: map_sort_key take_rev length_sort)
  also have "\<dots> = sort (rev ?E)"
    by (simp only: rev_map [symmetric] E)
  also have "\<dots> = ?E"
    by (rule sort_rev_sorted) (simp add: sorted_wrt_drop)
  finally show ?thesis .
qed

text \<open>The two examples: 31 messages against a limit of 30, and at most 30.\<close>

lemma page_of_31:
  assumes "length (matching coll roomId before) = 31"
  shows "\<exists>res. loadMessages (responsive coll) roomId before 30 = Inr res
           \<and> hasMore res \<and> length (messages res) = 30
           \<and> sorted (map d_timestamp (messages res))"
  using assms by (simp add: loadMessages_def responsive_def Message_find_def Let_def)

lemma page_of_at_most_30:
  assumes "length (matching coll roomId before) \<le> 30"
  shows "\<exists>res. loadMessages (responsive coll) roomId before 30 = Inr res
           \<and> \<not> hasMore res \<and> length (messages res) = length (matching coll roomId before)"
  using assms by (simp add: loadMessages_def responsive_def Message_find_def Let_def)

text \<open>
  C4, as stated: the page is the oldest \<open>limit\<close> of the fetched records. With three
  messages at times 1, 2, 3 and a limit of 2 the three are fetched, the code returns
  those at 2 and 3, and the oldest two of the fetched are those at 1 and 2.
\<close>

theorem oldest_of_fetched_counterexample:
  "loadMessages (responsive [posted 1, posted 2, posted 3]) ''R1'' None 2 =
     Inr \<lparr>messages = [posted 2, posted 3], hasMore = True, oldestTimestamp = Some 2\<rparr>
   \<and> fetchPage_spec [posted 1, posted 2, posted 3] ''R1'' None 2 =
     \<lparr>messages = [posted 1, posted 2], hasMore = True, oldestTimestamp = Some 1\<rparr>
   \<and> loadMessages (responsive [posted 1, posted 2, posted 3]) ''R1'' None 2 \<noteq>
     Inr (fetchPage_spec [posted 1, posted 2, posted 3] ''R1'' None 2)"
  by (simp add: loadMessages_def responsive_def Message_find_def matching_def fetchPage_spec_def
      posted_def Let_def)

text \<open>
  C4, amended: the page is the newest \<open>limit\<close> of the fetched records. For every
  collection, room, \<open>before\<close> and limit, when the query answers: \<open>hasMore\<close> holds exactly
  when more than \<open>limit\<close> records of the room are older than \<open>before\<close> (all records of the
  room when \<open>before\<close> is absent), which is when \<open>limit + 1\<close> were fetched; the page has
  \<open>limit\<close> records, or all of them when there are fewer; it is in ascending order of
  time; its timestamps are the \<open>limit\<close> greatest among the matching records; and the
  timestamp reported is that of the oldest record of the page. So 31 messages and a
  limit of 30 give 30 ascending messages and \<open>hasMore\<close>, and 30 or fewer give no
  \<open>hasMore\<close>.
\<close>

theorem loadMessages_page:
  "\<exists>res. loadMessages (responsive coll) roomId before limit = Inr res
     \<and> hasMore res = (limit < length (matching coll roomId before))
     \<and> length (messages res) = min limit (length (matching coll roomId before))
     \<and> sorted (map d_timestamp (messages res))
     \<and> map d_timestamp (messages res) =
         drop (length (matching coll roomId before) - limit)
           (sort (map d_timestamp (matching coll roomId before)))
     \<and> set (messages res) \<subseteq> set (matching coll roomId before)
     \<and> oldestTimestamp res =
         (if messages res = [] then None
          else Some (Min (set (map d_timestamp (messages res)))))"
proof -
  let ?M = "matching coll roomId before"
  let ?page = "sort_key d_timestamp (take limit (rev (sort_key d_timestamp ?M)))"
  let ?res = "\<lparr>messages = ?page, hasMore = (limit < length ?M),
               oldestTimestamp = (case ?page of [] \<Rightarrow> None | m # _ \<Rightarrow> Some (d_timestamp m))\<rparr>"
  have run: "loadMessages (responsive coll) roomId before limit = Inr ?res"
    by (simp add: loadMessages_def responsive_def Message_find_def Let_def min_def) 
  have srt: "sorted (map d_timestamp ?page)" by simp
  have sub: "set ?page \<subseteq> set ?M"
    using set_take_subset [of limit "rev (sort_key d_timestamp ?M)"] by simp
  have old: "(case ?page of [] \<Rightarrow> None | m # _ \<Rightarrow> Some (d_timestamp m)) =
             (if ?page = [] then None else Some (Min (set (map d_timestamp ?page))))"
  proof (cases ?page)
    case Nil
    then show ?thesis by simp
  next
    case (Cons m ms)
    with srt have "sorted (d_timestamp m # map d_timestamp ms)" by simp
    from sorted_head_Min [OF this] Cons show ?thesis by simp
  qed
  show ?thesis
    apply (rule exI [of _ ?res])
    using run srt sub old page_timestamps [of limit ?M]
    apply simp
    done
qed



section \<open>Properties of the realtime dispatch\<close>

lemmas handler_defs = step_def handle_def middleware_def middleware_resume_def connection_def
  User_findById_def emit_def setTimeout_def handleDuplicateLogin_def refuse_def
  run_timer_def evict_def close_socket_def on_disconnect_def Message_create_def Room_pull_def
  DUPLICATE_LOGIN_TIMEOUT_def

lemmas example_defs = example_server_def device_def alice_def bob_def hello_def
  example_message_def storing_def stored_def alice_socket_def alice_online_def

lemmas observe_defs = clock_def sent_def entry_of_def connected_def incoming_def

subsection \<open>What the handlers leave alone\<close>



























subsection \<open>Duplicate login\<close>











subsection \<open>Submitting and delivering a message\<close>

text \<open>
  C5. \<open>enqueue\<close> answers \<open>false\<close> when the store cannot be reached (lemma
  \<open>enqueue_unreachable\<close>), and the submitter should then get an error instead of
  \<open>messageQueued\<close>. The handler does not look at the answer: with the store unreachable
  Alice's submission is acknowledged with \<open>messageQueued\<close>, no error is sent, and the
  incoming lane is empty.
\<close>

theorem unreachable_store_still_acknowledged:
  "clock (run [At 5 (Handshake (device ''a'' ''tokA'')), At 9 (ChatMessage ''a'' hello)]
        (example_server\<lparr>queue := (queue example_server)\<lparr>reachable := False\<rparr>\<rparr>)) = Some 9
   \<and> sent (run [At 5 (Handshake (device ''a'' ''tokA'')), At 9 (ChatMessage ''a'' hello)]
        (example_server\<lparr>queue := (queue example_server)\<lparr>reachable := False\<rparr>\<rparr>))
       = [(To_socket ''a'', MessageQueued ''t1'' 9)]
   \<and> incoming (run [At 5 (Handshake (device ''a'' ''tokA'')), At 9 (ChatMessage ''a'' hello)]
        (example_server\<lparr>queue := (queue example_server)\<lparr>reachable := False\<rparr>\<rparr>)) = []"
  by (simp add: handler_defs example_defs chatMessage_def Room_findOne_def enqueue_def rpush_def
      trim_def is_space_def Let_def observe_defs)

text \<open>
  In general: when the checks of the handler pass and the store cannot be reached, all
  the handler does is acknowledge.
\<close>

lemma chatMessage_ignores_enqueue_result:
  assumes "user sock = Some u" and "c_room d = Some rm"
    and "Room_findOne rm (uid u) s = Inr True"
    and "validateSession s (uid u) (sessionId u) = Returns (True, m)"
    and "updateLastActivity s (uid u) = Returns ()"
    and "\<not> reachable (queue s)"
  shows "chatMessage sock d s =
           s\<lparr>outbox := outbox s @ [(To_socket (sid sock), MessageQueued (c_tempId d) (now s))]\<rparr>"
  using assms by (simp add: chatMessage_def enqueue_unreachable emit_def Let_def)

lemma listener_outbox:
  "outbox (messageProcessed_listener m orig s) =
     outbox s @
     (case connectedUsers s (sender orig) of
        None \<Rightarrow> []
      | Some k \<Rightarrow> (case sockets s k of None \<Rightarrow> []
                  | Some sock \<Rightarrow> [(To_socket k, MessageProcessed (tempId orig) m)])) @
     [(To_room (d_room m), Message_event m)]"
  by (simp add: messageProcessed_listener_def emit_def Let_def split: option.splits)

lemma listeners_broadcasts:
  "length (filter (\<lambda>x. x = (To_room (d_room m), Message_event m))
            (outbox (((messageProcessed_listener m orig) ^^ n) s)))
   = length (filter (\<lambda>x. x = (To_room (d_room m), Message_event m)) (outbox s)) + n"
  by (induction n) (simp_all add: listener_outbox split: option.splits)

text \<open>
  One \<open>messageProcessed\<close> event of the queue puts as many broadcasts of the record
  into the room as there are listeners, and every connection accepted adds a listener.
\<close>

lemma broadcasts_per_listener:
  "length (filter (\<lambda>x. x = (To_room (d_room m), Message_event m))
            (outbox (queue_emits (QMessageProcessed m orig) s)))
   = length (filter (\<lambda>x. x = (To_room (d_room m), Message_event m)) (outbox s))
     + processedListeners s"
  by (simp add: queue_emits_def listeners_broadcasts)

lemma connection_adds_listener:
  "processedListeners (connection sock s) = Suc (processedListeners s)"
  by (simp add: connection_def Let_def emit_def setTimeout_def split: option.splits)

text \<open>
  C2. One \<open>processed\<close> event should give the sender one completion notice and the room
  one broadcast, however many connections are active. The listener is registered inside
  the connection handler, once per connection. With Alice and Bob connected, Alice's
  one submission, processed successfully in one turn of the loop, is announced to her
  twice and broadcast to the room twice.
\<close>

theorem two_connections_two_broadcasts:
  "clock (run [At 1 (Handshake (device ''a'' ''tokA'')), At 2 (Handshake (device ''b'' ''tokB'')),
               At 5 (ChatMessage ''a'' hello), At 6 (LoopTurn storing)] example_server) = Some 6
   \<and> sent (run [At 1 (Handshake (device ''a'' ''tokA'')), At 2 (Handshake (device ''b'' ''tokB'')),
               At 5 (ChatMessage ''a'' hello), At 6 (LoopTurn storing)] example_server)
       = [(To_socket ''a'', MessageQueued ''t1'' 5),
          (To_socket ''a'', MessageProcessed ''t1'' stored),
          (To_room ''R1'', Message_event stored),
          (To_socket ''a'', MessageProcessed ''t1'' stored),
          (To_room ''R1'', Message_event stored)]"
  by (simp add: handler_defs example_defs chatMessage_def Room_findOne_def enqueue_def rpush_def
      trim_def is_space_def Let_def queue_turn_def queue_defs queue_emits_def
      messageProcessed_listener_def numeral_2_eq_2 observe_defs)

subsection \<open>Joining the room one is in\<close>

lemma joinRoom_already:
  "user sock = Some u \<Longrightarrow> userRooms s (uid u) = Some roomId \<Longrightarrow>
   joinRoom sock roomId s =
     s\<lparr>outbox := outbox s @ [(To_socket (sid sock), JoinRoomSuccess roomId None)]\<rparr>"
  by (simp add: joinRoom_def emit_def)

text \<open>
  C9: when the map of rooms already records the requested room for the user of the
  socket, \<open>joinRoom\<close> sends the socket \<open>joinRoomSuccess\<close> with the room identifier alone
  and the state is otherwise what it was: nothing is sent to the room, no message is
  created, and the map of rooms, the members of the socket.io rooms and the participants
  in the database are unchanged.
\<close>

theorem joinRoom_same_room:
  "user sock = Some u \<Longrightarrow> userRooms s (uid u) = Some roomId \<Longrightarrow>
     joinRoom sock roomId s =
       s\<lparr>outbox := outbox s @ [(To_socket (sid sock), JoinRoomSuccess roomId None)]\<rparr>
   \<and> userRooms (joinRoom sock roomId s) = userRooms s
   \<and> rooms (joinRoom sock roomId s) = rooms s
   \<and> db_rooms (joinRoom sock roomId s) = db_rooms s
   \<and> db_messages (joinRoom sock roomId s) = db_messages s"
  by (simp add: joinRoom_already)

lemma joined_server_room: "userRooms joined_server ''u1'' = Some ''R1''"
  by (simp add: joined_server_def joinRoom_def handler_defs example_defs Room_addToSet_def
      loadMessages_def db_query_def responsive_def Message_find_def matching_def Let_def
      BATCH_SIZE_def)

theorem joinRoom_same_room_witness:
  "joinRoom alice_socket ''R1'' joined_server =
     joined_server\<lparr>outbox := outbox joined_server @
                     [(To_socket ''a'', JoinRoomSuccess ''R1'' None)]\<rparr>
   \<and> userRooms (joinRoom alice_socket ''R1'' joined_server) ''u1'' = Some ''R1''
   \<and> db_messages (joinRoom alice_socket ''R1'' joined_server) = db_messages joined_server"
proof -
  have u: "user alice_socket = Some \<lparr>uid = ''u1'', name = ''Alice'',
     email = ''alice@example.org'', sessionId = ''sess'', profileImage = ''a.png''\<rparr>"
    by (simp add: alice_socket_def)
  have r: "userRooms joined_server (uid \<lparr>uid = ''u1'', name = ''Alice'',
     email = ''alice@example.org'', sessionId = ''sess'', profileImage = ''a.png''\<rparr>) = Some ''R1''"
    using joined_server_room by simp
  from joinRoom_same_room [OF u r] joined_server_room show ?thesis
    by (simp add: alice_socket_def device_def)
qed

subsection \<open>The guard of the history loader\<close>









section \<open>Properties of the streaming aggregator\<close>

lemmas ai_defs = handleAIResponse_def ai_callback_def chunk_script_def piece_def emit_def
  session_delete_def Message_create_def hello_chunks_def reported_def example_server_def Let_def

lemma chunk_event_Cons:
  "chunk_event mid acc ((t, c, b) # rest) (Suc i) = chunk_event mid (acc @ piece c) rest i"
  by (simp add: chunk_event_def)

lemma ai_chunk_step:
  "ai_callback rm ai mid (OnChunk c b) (acc, s) =
     (acc @ piece c,
      emit (To_room rm) (AiMessageChunk mid c (acc @ piece c) b)
        (s\<lparr>streamingSessions :=
             map (\<lambda>(k, se). if k = mid
                             then (k, se\<lparr>s_content := acc @ piece c, s_lastUpdate := now s\<rparr>)
                             else (k, se))
               (streamingSessions s)\<rparr>))"
  by (simp add: ai_callback_def Let_def)

lemma ai_chunks:
  "fst (ai_callbacks rm ai mid (chunk_script chunks) (acc, s)) =
     acc @ concat (map (\<lambda>(t, c, b). piece c) chunks)
   \<and> outbox (snd (ai_callbacks rm ai mid (chunk_script chunks) (acc, s))) =
     outbox s @ map (\<lambda>i. (To_room rm, chunk_event mid acc chunks i)) [0..<length chunks]
   \<and> db_messages (snd (ai_callbacks rm ai mid (chunk_script chunks) (acc, s))) = db_messages s
   \<and> db_status (snd (ai_callbacks rm ai mid (chunk_script chunks) (acc, s))) = db_status s"
proof (induction chunks arbitrary: acc s)
  case Nil
  then show ?case by (simp add: chunk_script_def)
next
  case (Cons x rest)
  obtain t c b where x: "x = (t, c, b)" by (cases x) auto
  let ?s1 = "snd (ai_callback rm ai mid (OnChunk c b) (acc, s\<lparr>now := t\<rparr>))"
  have step: "ai_callbacks rm ai mid (chunk_script (x # rest)) (acc, s) =
      ai_callbacks rm ai mid (chunk_script rest) (acc @ piece c, ?s1)"
    by (simp add: chunk_script_def x ai_chunk_step)
  have s1: "outbox ?s1 = outbox s @ [(To_room rm, chunk_event mid acc (x # rest) 0)]"
    "db_messages ?s1 = db_messages s" "db_status ?s1 = db_status s"
    by (simp_all add: ai_chunk_step emit_def chunk_event_def x)
  have idx: "map (\<lambda>i. (To_room rm, chunk_event mid acc (x # rest) i)) [0..<length (x # rest)] =
      (To_room rm, chunk_event mid acc (x # rest) 0) #
      map (\<lambda>i. (To_room rm, chunk_event mid (acc @ piece c) rest i)) [0..<length rest]"
    by (simp add: upt_rec [of 0] map_Suc_upt [symmetric] x chunk_event_Cons del: upt_Suc)
  show ?case
    using Cons.IH [of "acc @ piece c" ?s1]
    by (simp only: step s1 idx) (simp add: x)
qed


lemma ai_callbacks_append:
  "ai_callbacks rm ai mid (xs @ ys) st = ai_callbacks rm ai mid ys (ai_callbacks rm ai mid xs st)"
proof (induction xs arbitrary: st)
  case Nil
  then show ?case by simp
next
  case (Cons x xs)
  then show ?case by (cases x) simp
qed

lemma ai_complete_step:
  "db_status s \<noteq> Down \<Longrightarrow>
   snd (ai_callback rm ai mid (OnComplete fc) (acc, s)) =
     emit (To_room rm)
       (AiMessageComplete mid (Suc (fold max (map d_id (db_messages s)) 0)) (f_content fc))
       (session_delete mid s
         \<lparr>db_messages := db_messages s @
            [\<lparr>d_id = Suc (fold max (map d_id (db_messages s)) 0), d_room = rm,
              d_sender = None, d_type = ''ai'', d_content = Text (f_content fc),
              d_timestamp = now s\<rparr>]\<rparr>)"
  by (simp add: ai_callback_def Message_create_def session_delete_def Let_def)

text \<open>
  C6, as stated: the content persisted and carried by \<open>aiMessageComplete\<close> is the
  concatenation of the chunks. The handler accumulates the chunks but persists and
  announces the content the responder hands to \<open>onComplete\<close>. A responder that delivers
  the chunks \<open>Hel\<close>, \<open>lo, \<close>, \<open>world\<close> and completes with the content \<open>Hello\<close> gets
  \<open>Hello\<close> persisted and announced, while the chunks concatenate to \<open>Hello, world\<close>.
\<close>

theorem reported_content_counterexample:
  "outbox (handleAIResponse ''R1'' ''wayneAI''
      (chunk_script hello_chunks @ [(4, OnComplete (reported ''Hello''))]) Resolves example_server) =
     [(To_room ''R1'', AiMessageStart (''wayneAI'', 0) ''wayneAI'' 0),
      (To_room ''R1'', AiMessageChunk (''wayneAI'', 0) (Some ''Hel'') ''Hel'' False),
      (To_room ''R1'', AiMessageChunk (''wayneAI'', 0) (Some ''lo, '') ''Hello, '' False),
      (To_room ''R1'', AiMessageChunk (''wayneAI'', 0) (Some ''world'') ''Hello, world'' False),
      (To_room ''R1'', AiMessageComplete (''wayneAI'', 0) 1 ''Hello'')]
   \<and> map d_content (db_messages (handleAIResponse ''R1'' ''wayneAI''
      (chunk_script hello_chunks @ [(4, OnComplete (reported ''Hello''))]) Resolves example_server)) =
     [Text ''Hello'']
   \<and> piece (Some ''Hel'') @ piece (Some ''lo, '') @ piece (Some ''world'') = ''Hello, world''"
  by (simp add: ai_defs)

text \<open>
  C6, amended: for a generation whose responder delivers chunks and then completes,
  with the database reachable, the room is sent \<open>aiMessageStart\<close>, then one
  \<open>aiMessageChunk\<close> per chunk in order, each carrying the chunk and as full content the
  concatenation of the chunks so far (so the last one carries the concatenation of all
  chunks, the accumulated content at completion), then exactly one \<open>aiMessageComplete\<close>;
  the content of that event and of the one message persisted is the content the
  responder handed to \<open>onComplete\<close>. It is the concatenation of the chunks whenever the
  responder reports that concatenation as its final content.
\<close>

theorem streaming_persists_reported_content:
  assumes "db_status s \<noteq> Down"
  shows "outbox (handleAIResponse rm ai (chunk_script chunks @ [(tc, OnComplete fc)]) Resolves s) =
           outbox s @ (To_room rm, AiMessageStart (ai, now s) ai (now s)) #
             map (\<lambda>i. (To_room rm, chunk_event (ai, now s) [] chunks i)) [0..<length chunks] @
             [(To_room rm, AiMessageComplete (ai, now s)
                 (Suc (fold max (map d_id (db_messages s)) 0)) (f_content fc))]
       \<and> db_messages (handleAIResponse rm ai (chunk_script chunks @ [(tc, OnComplete fc)])
            Resolves s) =
           db_messages s @
             [\<lparr>d_id = Suc (fold max (map d_id (db_messages s)) 0), d_room = rm,
               d_sender = None, d_type = ''ai'', d_content = Text (f_content fc),
               d_timestamp = tc\<rparr>]"
proof -
  let ?mid = "(ai, now s)"
  let ?s2 = "s\<lparr>streamingSessions :=
            session_set ?mid
              \<lparr>s_room = rm, s_aiType = ai, s_content = [], s_messageId = ?mid,
               s_timestamp = now s, s_lastUpdate = now s\<rparr>
              (streamingSessions s),
            outbox := outbox s @ [(To_room rm, AiMessageStart ?mid ai (now s))]\<rparr>"
  let ?st = "ai_callbacks rm ai ?mid (chunk_script chunks) ([], ?s2)"
  let ?s3 = "(snd ?st)\<lparr>now := tc\<rparr>"
  have run: "handleAIResponse rm ai (chunk_script chunks @ [(tc, OnComplete fc)]) Resolves s =
      snd (ai_callback rm ai ?mid (OnComplete fc) (fst ?st, ?s3))"
    by (simp add: handleAIResponse_def Let_def ai_callbacks_append emit_def)
  from ai_chunks [of rm ai ?mid chunks "[]" ?s2]
  have ob: "outbox (snd ?st) =
        outbox ?s2 @ map (\<lambda>i. (To_room rm, chunk_event ?mid [] chunks i)) [0..<length chunks]"
    and dm: "db_messages (snd ?st) = db_messages ?s2"
    and ds: "db_status (snd ?st) = db_status ?s2"
    by simp_all
  have up: "db_status ?s3 \<noteq> Down"
    using assms ds by simp
  show ?thesis
    by (simp only: run ai_complete_step [OF up])
       (simp add: emit_def session_delete_def ob dm)
qed

theorem streaming_persists_reported_content_witness:
  "db_status example_server \<noteq> Down
   \<and> outbox (handleAIResponse ''R1'' ''wayneAI''
        (chunk_script hello_chunks @ [(4, OnComplete (reported ''Hello, world''))]) Resolves
        example_server) =
     [(To_room ''R1'', AiMessageStart (''wayneAI'', 0) ''wayneAI'' 0),
      (To_room ''R1'', AiMessageChunk (''wayneAI'', 0) (Some ''Hel'') ''Hel'' False),
      (To_room ''R1'', AiMessageChunk (''wayneAI'', 0) (Some ''lo, '') ''Hello, '' False),
      (To_room ''R1'', AiMessageChunk (''wayneAI'', 0) (Some ''world'') ''Hello, world'' False),
      (To_room ''R1'', AiMessageComplete (''wayneAI'', 0) 1 ''Hello, world'')]
   \<and> map d_content (db_messages (handleAIResponse ''R1'' ''wayneAI''
        (chunk_script hello_chunks @ [(4, OnComplete (reported ''Hello, world''))]) Resolves
        example_server)) = [Text ''Hello, world'']"
proof -
  have h: "db_status example_server \<noteq> Down" by (simp add: example_server_def)
  from streaming_persists_reported_content [OF h, of "''R1''" "''wayneAI''" hello_chunks 4
      "reported ''Hello, world''"] h
  show ?thesis
    by (simp add: chunk_event_def hello_chunks_def reported_def example_server_def piece_def
        upt_rec [of 0] upt_rec [of 1] upt_rec [of 2] numeral_3_eq_3)
qed


end
